theory Spec2Isabelle
  imports Complex_Main
begin

section \<open>Numbers and vectors\<close>

text \<open>
  The program computes with \<^verbatim>\<open>float\<close> and \<^verbatim>\<open>double\<close>. Both are idealised as
  \<^typ>\<open>real\<close> here: rounding, infinities and NaN are outside this development, so
  nothing below is a statement about rounding error, overflow or NaN. The results
  only say which value a field receives, as the expression the source writes.
  \<^verbatim>\<open>M_PI\<close>, \<^verbatim>\<open>std::cos\<close> and \<^verbatim>\<open>std::sin\<close> are \<^term>\<open>pi\<close>, \<^term>\<open>cos\<close> and \<^term>\<open>sin\<close>.
  Integers keep their C++ behaviour: \<^verbatim>\<open>int\<close> is a mathematical integer that is
  expected to lie in the 32-bit range, and the conversion to the unsigned 64-bit
  \<^verbatim>\<open>size_t\<close> wraps around as the language prescribes. Allocation is assumed to
  succeed for every request that the containers accept.
\<close>

definition INT_MIN :: int where
  "INT_MIN = - (2 ^ 31)"

definition INT_MAX :: int where
  "INT_MAX = 2 ^ 31 - 1"

definition size_t_of_int :: "int \<Rightarrow> nat" where
  \<comment> \<open>the implicit conversion of an \<^verbatim>\<open>int\<close> to \<^verbatim>\<open>size_t\<close>\<close>
  "size_t_of_int n = nat (n mod 2 ^ 64)"

definition size_t_mul :: "nat \<Rightarrow> nat \<Rightarrow> nat" where
  \<comment> \<open>multiplication of two \<^verbatim>\<open>size_t\<close> values\<close>
  "size_t_mul a b = (a * b) mod 2 ^ 64"

definition vector_max_size :: nat where
  \<comment> \<open>\<^verbatim>\<open>std::vector<RVO::Vector2>::max_size()\<close> on a 64-bit target: the largest
      pointer difference over the 8 bytes of two floats\<close>
  "vector_max_size = (2 ^ 63 - 1) div 8"

text \<open>
  \<^verbatim>\<open>RVO::Vector2\<close> is a pair of floats; \<^verbatim>\<open>x()\<close> and \<^verbatim>\<open>y()\<close> are \<^term>\<open>fst\<close> and
  \<^term>\<open>snd\<close>. The three operators of the class that the program uses are unary
  minus, the product with a scalar on the left and the quotient by a scalar.
\<close>

type_synonym Vector2 = "real \<times> real"

definition Vector2_neg :: "Vector2 \<Rightarrow> Vector2" where
  "Vector2_neg v = (- fst v, - snd v)"

definition Vector2_scale :: "real \<Rightarrow> Vector2 \<Rightarrow> Vector2" where
  "Vector2_scale s v = (s * fst v, s * snd v)"

definition Vector2_div :: "Vector2 \<Rightarrow> real \<Rightarrow> Vector2" where
  "Vector2_div v s = (fst v / s, snd v / s)"

definition int_of_float :: "real \<Rightarrow> int" where
  \<comment> \<open>the implicit conversion of a float argument to an \<^verbatim>\<open>int\<close> parameter: the
      fractional part is dropped\<close>
  "int_of_float r = (if 0 \<le> r then \<lfloor>r\<rfloor> else \<lceil>r\<rceil>)"

section \<open>The solver\<close>

text \<open>
  Modelled from the spec: \<^verbatim>\<open>RVO::RVOSimulator\<close> (\<^verbatim>\<open>RVOSimulator.h\<close>) is an
  external library and not part of the sources. Its state is what the program can
  tell about it through the interface listed in the specification: the agent
  defaults, the positions of the agents in the order they were added, the polygons
  handed to \<^verbatim>\<open>addObstacle\<close> in call order, the polygons that the last
  \<^verbatim>\<open>processObstacles\<close> covered, and how often \<^verbatim>\<open>processObstacles\<close> ran.
\<close>

record RVOSimulator =
  rvo_defaults :: "(real \<times> int \<times> real \<times> real \<times> real \<times> real) option"
  rvo_agents :: "Vector2 list"
  rvo_obstacles :: "Vector2 list list"
  rvo_processed :: "Vector2 list list"
  rvo_process_calls :: nat

datatype error = length_error | null_simulator | agent_out_of_range

definition new_RVOSimulator :: RVOSimulator where
  "new_RVOSimulator =
     \<lparr>rvo_defaults = None, rvo_agents = [], rvo_obstacles = [],
      rvo_processed = [], rvo_process_calls = 0\<rparr>"

definition setAgentDefaults ::
  "real \<Rightarrow> int \<Rightarrow> real \<Rightarrow> real \<Rightarrow> real \<Rightarrow> real \<Rightarrow> RVOSimulator \<Rightarrow> RVOSimulator" where
  "setAgentDefaults nd mn th tho r ms sim =
     sim\<lparr>rvo_defaults := Some (nd, mn, th, tho, r, ms)\<rparr>"

definition addObstacle :: "Vector2 list \<Rightarrow> RVOSimulator \<Rightarrow> RVOSimulator" where
  "addObstacle vertices sim = sim\<lparr>rvo_obstacles := rvo_obstacles sim @ [vertices]\<rparr>"

definition processObstacles :: "RVOSimulator \<Rightarrow> RVOSimulator" where
  "processObstacles sim =
     sim\<lparr>rvo_processed := rvo_obstacles sim,
         rvo_process_calls := Suc (rvo_process_calls sim)\<rparr>"

definition addAgent :: "Vector2 \<Rightarrow> RVOSimulator \<Rightarrow> RVOSimulator" where
  "addAgent position sim = sim\<lparr>rvo_agents := rvo_agents sim @ [position]\<rparr>"

definition getNumAgents :: "RVOSimulator \<Rightarrow> nat" where
  "getNumAgents sim = length (rvo_agents sim)"

definition getAgentPosition :: "RVOSimulator \<Rightarrow> nat \<Rightarrow> error + Vector2" where
  "getAgentPosition sim i =
     (if i < length (rvo_agents sim) then Inr (rvo_agents sim ! i)
      else Inl agent_out_of_range)"

section \<open>Simulation\<close>

datatype configuration_t = CIRCLE | DEADLOCK | CONFIGURATION_COUNT

record Simulation_options_t =
  configuration :: configuration_t
  run_simulation :: bool
  show_goal :: bool
  time_scale :: real
  neighborDist :: real
  maxNeighbors :: int
  timeHorizon :: real
  timeHorizonObst :: real
  radius :: real
  maxSpeed :: real
  numAgents :: int
  circleRadius :: real

definition default_options :: Simulation_options_t where
  \<comment> \<open>the member initialisers of \<^verbatim>\<open>Simulation::options_t\<close>\<close>
  "default_options =
     \<lparr>configuration = CIRCLE, run_simulation = False, show_goal = False,
      time_scale = 10, neighborDist = 15, maxNeighbors = 10, timeHorizon = 10,
      timeHorizonObst = 10, radius = 3 / 2, maxSpeed = 10, numAgents = 250,
      circleRadius = 200\<rparr>"

text \<open>
  \<^verbatim>\<open>simulator\<close> is a \<^verbatim>\<open>std::unique_ptr\<close>: \<^term>\<open>None\<close> is the null pointer of a
  default-constructed \<^verbatim>\<open>Simulation\<close>, and dereferencing it is the error
  \<^term>\<open>null_simulator\<close>.
\<close>

record Simulation =
  simulator :: "RVOSimulator option"
  goals :: "Vector2 list"
  staging_obstacle :: "Vector2 list"
  obstacles :: "Vector2 list list"

definition new_Simulation :: Simulation where
  \<comment> \<open>\<^verbatim>\<open>Simulation() = default\<close>\<close>
  "new_Simulation =
     \<lparr>simulator = None, goals = [], staging_obstacle = [], obstacles = []\<rparr>"

definition circle_angle :: "Simulation_options_t \<Rightarrow> nat \<Rightarrow> real" where
  \<comment> \<open>\<^verbatim>\<open>i * 2 * M_PI / options.numAgents\<close>: the product \<^verbatim>\<open>i * 2\<close> is taken in
      \<^verbatim>\<open>size_t\<close>, the rest in \<^verbatim>\<open>double\<close>\<close>
  "circle_angle options i =
     real (size_t_mul i 2) * pi / real_of_int (numAgents options)"

definition circle_position :: "Simulation_options_t \<Rightarrow> nat \<Rightarrow> Vector2" where
  "circle_position options i =
     Vector2_scale (circleRadius options)
       (cos (circle_angle options i), sin (circle_angle options i))"

text \<open>
  The loop of the circle scenario, \<^verbatim>\<open>for (size_t i = 0; i < options.numAgents; ++i)\<close>,
  with the bound \<^term>\<open>n\<close> already converted to \<^verbatim>\<open>size_t\<close>. Each round adds an agent
  and stores the negation of the position that the solver reports for index \<^term>\<open>i\<close>.
\<close>

function circle_loop ::
  "Simulation_options_t \<Rightarrow> nat \<Rightarrow> nat \<Rightarrow> RVOSimulator \<Rightarrow> Vector2 list
     \<Rightarrow> error + (RVOSimulator \<times> Vector2 list)" where
  "circle_loop options n i sim gs =
     (if i < n then
        (let sim' = addAgent (circle_position options i) sim
         in case getAgentPosition sim' i of
              Inl e \<Rightarrow> Inl e
            | Inr p \<Rightarrow> circle_loop options n (Suc i) sim' (gs @ [Vector2_neg p]))
      else Inr (sim, gs))"
  by pat_completeness auto
termination
  by (relation "measure (\<lambda>(options, n, i, sim, gs). n - i)") auto

declare circle_loop.simps [simp del]

definition circle_scenario ::
  "Simulation_options_t \<Rightarrow> RVOSimulator \<Rightarrow> error + (RVOSimulator \<times> Vector2 list)" where
  \<comment> \<open>\<^verbatim>\<open>goals.reserve(options.numAgents)\<close> throws \<^verbatim>\<open>std::length_error\<close> when the
      converted count exceeds \<^verbatim>\<open>max_size()\<close>; then the loop runs\<close>
  "circle_scenario options sim =
     (let n = size_t_of_int (numAgents options)
      in if vector_max_size < n then Inl length_error
         else circle_loop options n 0 sim [])"

definition deadlock_scenario ::
  "Simulation_options_t \<Rightarrow> RVOSimulator \<Rightarrow> RVOSimulator \<times> Vector2 list" where
  "deadlock_scenario options sim =
     (let sim1 = addAgent (- 2 * radius options, 0) sim;
          gs1 = [] @ [(10 * radius options, 0)];
          sim2 = addAgent (2 * radius options, 0) sim1;
          gs2 = gs1 @ [(- 10 * radius options, 0)]
      in (sim2, gs2))"

definition fresh_simulator :: "Simulation_options_t \<Rightarrow> Vector2 list list \<Rightarrow> RVOSimulator" where
  \<comment> \<open>the first half of \<^verbatim>\<open>initialize\<close>: a new solver with the agent defaults and
      the committed obstacles, processed when there are any\<close>
  "fresh_simulator options obs =
     (let sim0 = setAgentDefaults (neighborDist options) (maxNeighbors options)
                   (timeHorizon options) (timeHorizonObst options)
                   (radius options) (maxSpeed options) new_RVOSimulator;
          sim1 = fold addObstacle obs sim0
      in if obs \<noteq> [] then processObstacles sim1 else sim1)"

definition initialize :: "Simulation_options_t \<Rightarrow> Simulation \<Rightarrow> error + Simulation" where
  "initialize options s =
     (let sim = fresh_simulator options (obstacles s)
      in case configuration options of
           CIRCLE \<Rightarrow>
             (case circle_scenario options sim of
                Inl e \<Rightarrow> Inl e
              | Inr (sim', gs) \<Rightarrow> Inr (s\<lparr>simulator := Some sim', goals := gs\<rparr>))
         | DEADLOCK \<Rightarrow>
             (let (sim', gs) = deadlock_scenario options sim
              in Inr (s\<lparr>simulator := Some sim', goals := gs\<rparr>))
         | CONFIGURATION_COUNT \<Rightarrow> Inr (s\<lparr>simulator := Some sim, goals := []\<rparr>))"

definition initialize_main :: "Simulation_options_t \<Rightarrow> Simulation \<Rightarrow> error + Simulation" where
  \<comment> \<open>\<^verbatim>\<open>Simulation::initialize\<close> of \<^verbatim>\<open>main.cpp\<close>, the revision without scenarios
      and obstacles: the circle placement alone\<close>
  "initialize_main options s =
     (let sim = setAgentDefaults (neighborDist options) (maxNeighbors options)
                  (timeHorizon options) (timeHorizonObst options)
                  (radius options) (maxSpeed options) new_RVOSimulator
      in case circle_scenario options sim of
           Inl e \<Rightarrow> Inl e
         | Inr (sim', gs) \<Rightarrow> Inr (s\<lparr>simulator := Some sim', goals := gs\<rparr>))"

definition commit_obstacle :: "Simulation \<Rightarrow> error + Simulation" where
  "commit_obstacle s =
     (if 2 < length (staging_obstacle s) then
        (case simulator s of
           None \<Rightarrow> Inl null_simulator
         | Some sim \<Rightarrow>
             Inr (s\<lparr>simulator :=
                      Some (processObstacles (addObstacle (staging_obstacle s) sim)),
                    obstacles := obstacles s @ [staging_obstacle s],
                    staging_obstacle := []\<rparr>))
      else Inr (s\<lparr>staging_obstacle := []\<rparr>))"

section \<open>Renderer\<close>

record Renderer_options_t =
  scale :: real
  offset_x :: real
  offset_y :: real

text \<open>
  Of the members of \<^verbatim>\<open>Renderer\<close> only the camera options and the window size (two
  \<^verbatim>\<open>uint32_t\<close>) take part in the computations below. \<^verbatim>\<open>width / 2\<close> is an integer
  division. The two transforms are the source's expressions over the reals; how far
  their single-precision results are from these values is not modelled, and they
  serve below only to name the points that are drawn or staged.
\<close>

record Renderer =
  options :: Renderer_options_t
  width :: nat
  height :: nat

definition toScreenSpace :: "Renderer \<Rightarrow> Vector2 \<Rightarrow> Vector2" where
  "toScreenSpace r point =
     (real (width r div 2) + offset_x (options r) + fst point * scale (options r),
      real (height r div 2) + offset_y (options r) - snd point * scale (options r))"

definition fromScreenSpace :: "Renderer \<Rightarrow> Vector2 \<Rightarrow> Vector2" where
  "fromScreenSpace r point =
     Vector2_div
       (fst point - real (width r div 2) - offset_x (options r),
        - snd point + real (height r div 2) + offset_y (options r))
       (scale (options r))"

datatype draw_call = RenderDrawLine int int int int

definition draw_line_to_mouse :: "Vector2 \<Rightarrow> int \<times> int \<Rightarrow> draw_call" where
  \<comment> \<open>\<^verbatim>\<open>SDL_RenderDrawLine(renderer, point.x(), point.y(), x, y)\<close>\<close>
  "draw_line_to_mouse point mouse =
     RenderDrawLine (int_of_float (fst point)) (int_of_float (snd point))
       (fst mouse) (snd mouse)"

text \<open>
  The end of \<^verbatim>\<open>Renderer::draw\<close>: the lines that preview the polygon under
  construction. The first argument is what \<^verbatim>\<open>ui_want_capture_mouse()\<close> returns and
  the last one what \<^verbatim>\<open>SDL_GetMouseState\<close> reports; the result lists the draw calls
  in the order they are issued.
\<close>

definition draw_staging_preview ::
  "bool \<Rightarrow> Renderer \<Rightarrow> Simulation \<Rightarrow> int \<times> int \<Rightarrow> draw_call list" where
  "draw_staging_preview want_capture_mouse r simulation mouse =
     (let staging = staging_obstacle simulation
      in if want_capture_mouse then
           (if 2 < length staging then
              (let point_1 = toScreenSpace r (staging ! 0);
                   point_2 = toScreenSpace r (last staging)
               in [RenderDrawLine (int_of_float (fst point_1)) (int_of_float (snd point_1))
                     (int_of_float (fst point_2)) (int_of_float (snd point_2))])
            else [])
         else
           (if staging \<noteq> [] then
              [draw_line_to_mouse (toScreenSpace r (staging ! 0)) mouse]
            else []) @
           (if 1 < length staging then
              [draw_line_to_mouse (toScreenSpace r (last staging)) mouse]
            else []))"

section \<open>The event loop\<close>

datatype button = SDL_BUTTON_LEFT | SDL_BUTTON_MIDDLE | SDL_BUTTON_RIGHT
  | SDL_BUTTON_X1 | SDL_BUTTON_X2

datatype scancode = SDL_SCANCODE_ESCAPE | SDL_SCANCODE_SPACE | SDL_SCANCODE_BACKSPACE
  | SDL_SCANCODE_OTHER

text \<open>
  The events that \<^verbatim>\<open>App::main_loop\<close> tells apart, with the fields it reads: button,
  click count and position of a button press; the vertical amount of a wheel event;
  button state and relative motion of a pointer motion; the scancode of a key press.
\<close>

datatype event =
    SDL_QUIT
  | SDL_MOUSEBUTTONDOWN button nat int int
  | SDL_MOUSEWHEEL int
  | SDL_MOUSEMOTION nat int int
  | SDL_KEYDOWN scancode
  | SDL_OTHER

definition SDL_PRESSED :: nat where
  "SDL_PRESSED = 1"

record ImGuiIO =
  WantCaptureMouse :: bool
  WantCaptureKeyboard :: bool

record App =
  renderer :: Renderer
  simulation_options :: Simulation_options_t
  simulation :: Simulation

definition wheel_zoom :: "int \<Rightarrow> Renderer_options_t \<Rightarrow> Renderer_options_t" where
  \<comment> \<open>the body of the wheel branch, the same in both revisions of \<^verbatim>\<open>main_loop\<close>;
      in the source the sum can overflow to infinity and from there become NaN, which
      the comparison does not catch: the real-valued scale here has neither, so this
      definition supports no statement about the sign of the scale\<close>
  "wheel_zoom wheel_y opts =
     (let opts' = opts\<lparr>scale := scale opts + real_of_int wheel_y * (1 / 100) * scale opts\<rparr>
      in if scale opts' < 0 then opts'\<lparr>scale := 0\<rparr> else opts')"

definition stage_vertex :: "Renderer \<Rightarrow> int \<Rightarrow> int \<Rightarrow> Simulation \<Rightarrow> Simulation" where
  \<comment> \<open>\<^verbatim>\<open>staging_obstacle.emplace_back(renderer.fromScreenSpace(RVO::Vector2(x, y)))\<close>\<close>
  "stage_vertex r x y s =
     s\<lparr>staging_obstacle :=
         staging_obstacle s @ [fromScreenSpace r (real_of_int x, real_of_int y)]\<rparr>"

text \<open>
  One round of the \<^verbatim>\<open>while (SDL_PollEvent(&event))\<close> loop. The \<^typ>\<open>ImGuiIO\<close> argument
  is what the two capture queries return during this round. The result is an error,
  or the application state together with \<^term>\<open>False\<close> where the source returns
  \<^verbatim>\<open>false\<close> from \<^verbatim>\<open>main_loop\<close> and \<^term>\<open>True\<close> where it goes on polling.
\<close>

fun handle_event :: "ImGuiIO \<Rightarrow> event \<Rightarrow> App \<Rightarrow> error + (bool \<times> App)" where
  "handle_event io SDL_QUIT app = Inr (False, app)"
| "handle_event io (SDL_MOUSEBUTTONDOWN b clicks x y) app =
     (if \<not> WantCaptureMouse io then
        (if b = SDL_BUTTON_LEFT \<and> clicks = 2 then
           Inr (True, app\<lparr>simulation := stage_vertex (renderer app) x y (simulation app)\<rparr>)
         else if b = SDL_BUTTON_RIGHT then
           (case commit_obstacle (stage_vertex (renderer app) x y (simulation app)) of
              Inl e \<Rightarrow> Inl e
            | Inr s \<Rightarrow> Inr (True, app\<lparr>simulation := s\<rparr>))
         else Inr (True, app))
      else Inr (True, app))"
| "handle_event io (SDL_MOUSEWHEEL wheel_y) app =
     (if \<not> WantCaptureMouse io then
        Inr (True, app\<lparr>renderer :=
                         (renderer app)\<lparr>options := wheel_zoom wheel_y (options (renderer app))\<rparr>\<rparr>)
      else Inr (True, app))"
| "handle_event io (SDL_MOUSEMOTION state xrel yrel) app =
     (if state = SDL_PRESSED \<and> \<not> WantCaptureMouse io then
        Inr (True, app\<lparr>renderer :=
                         (renderer app)\<lparr>options :=
                            (options (renderer app))
                              \<lparr>offset_x := offset_x (options (renderer app)) + real_of_int xrel,
                               offset_y := offset_y (options (renderer app)) + real_of_int yrel\<rparr>\<rparr>\<rparr>)
      else Inr (True, app))"
| "handle_event io (SDL_KEYDOWN key) app =
     (if \<not> WantCaptureKeyboard io then
        (case key of
           SDL_SCANCODE_ESCAPE \<Rightarrow> Inr (False, app)
         | SDL_SCANCODE_SPACE \<Rightarrow>
             Inr (True, app\<lparr>simulation_options :=
                              (simulation_options app)
                                \<lparr>run_simulation := \<not> run_simulation (simulation_options app)\<rparr>\<rparr>)
         | SDL_SCANCODE_BACKSPACE \<Rightarrow>
             (case initialize (simulation_options app) (simulation app) of
                Inl e \<Rightarrow> Inl e
              | Inr s \<Rightarrow> Inr (True, app\<lparr>simulation := s\<rparr>))
         | SDL_SCANCODE_OTHER \<Rightarrow> Inr (True, app))
      else Inr (True, app))"
| "handle_event io SDL_OTHER app = Inr (True, app)"

fun poll_events :: "(ImGuiIO \<times> event) list \<Rightarrow> App \<Rightarrow> error + (bool \<times> App)" where
  "poll_events [] app = Inr (True, app)"
| "poll_events ((io, e) # es) app =
     (case handle_event io e app of
        Inl err \<Rightarrow> Inl err
      | Inr (False, app') \<Rightarrow> Inr (False, app')
      | Inr (True, app') \<Rightarrow> poll_events es app')"

section \<open>Start-up values\<close>

text \<open>
  The camera options are the member initialisers of \<^verbatim>\<open>Renderer::options_t\<close> and the
  window size is the one \<^verbatim>\<open>Renderer::initialize\<close> asks for. A simulation that was
  initialised with an agent count of zero has a solver without agents and no goals.
\<close>

definition default_Renderer :: Renderer where
  "default_Renderer =
     \<lparr>options = \<lparr>scale = 3 / 2, offset_x = 300, offset_y = 0\<rparr>,
      width = 1280, height = 768\<rparr>"

definition no_agents :: Simulation_options_t where
  "no_agents = default_options\<lparr>numAgents := 0\<rparr>"

definition empty_Simulation :: Simulation where
  "empty_Simulation =
     \<lparr>simulator = Some (fresh_simulator no_agents []), goals = [],
      staging_obstacle = [], obstacles = []\<rparr>"

definition empty_App :: App where
  "empty_App =
     \<lparr>renderer = default_Renderer, simulation_options = no_agents,
      simulation = empty_Simulation\<rparr>"

definition pointer_free :: ImGuiIO where
  \<comment> \<open>the pointer and the keyboard are not captured by the controls\<close>
  "pointer_free = \<lparr>WantCaptureMouse = False, WantCaptureKeyboard = False\<rparr>"

section \<open>Auxiliary facts\<close>

text \<open>
  What the pieces of \<^verbatim>\<open>initialize\<close> compute: the fresh solver, the placement loop
  (by induction along the loop, with the number of agents added so far as invariant),
  and from these a closed form of \<^verbatim>\<open>initialize\<close> for each scenario. Then the
  closed form of the preview that the later sections share.
\<close>

lemma fold_addObstacle:
  "fold addObstacle obs sim = sim\<lparr>rvo_obstacles := rvo_obstacles sim @ obs\<rparr>"
  by (induction obs arbitrary: sim) (simp_all add: addObstacle_def)

lemma fresh_simulator_fields:
  "rvo_agents (fresh_simulator opts obs) = []"
  "rvo_obstacles (fresh_simulator opts obs) = obs"
  "rvo_processed (fresh_simulator opts obs) = obs"
  "rvo_process_calls (fresh_simulator opts obs) = (if obs = [] then 0 else 1)"
  by (simp_all add: fresh_simulator_def fold_addObstacle setAgentDefaults_def
        new_RVOSimulator_def processObstacles_def Let_def)

lemma circle_loop_Inr:
  "length (rvo_agents sim) = i \<Longrightarrow>
   circle_loop opts n i sim gs =
     Inr (sim\<lparr>rvo_agents := rvo_agents sim @ map (circle_position opts) [i..<n]\<rparr>,
          gs @ map (\<lambda>k. Vector2_neg (circle_position opts k)) [i..<n])"
proof (induction opts n i sim gs rule: circle_loop.induct)
  case (1 opts n i sim gs)
  show ?case
  proof (cases "i < n")
    case True
    let ?sim' = "addAgent (circle_position opts i) sim"
    have pos: "getAgentPosition ?sim' i = Inr (circle_position opts i)"
      using "1.prems" by (auto simp: getAgentPosition_def addAgent_def nth_append)
    have len: "length (rvo_agents ?sim') = Suc i"
      using "1.prems" by (simp add: addAgent_def)
    have step: "circle_loop opts n i sim gs =
        circle_loop opts n (Suc i) ?sim' (gs @ [Vector2_neg (circle_position opts i)])"
      using True pos by (subst circle_loop.simps) (simp add: Let_def)
    have ih: "circle_loop opts n (Suc i) ?sim' (gs @ [Vector2_neg (circle_position opts i)]) =
        Inr (?sim'\<lparr>rvo_agents := rvo_agents ?sim' @ map (circle_position opts) [Suc i..<n]\<rparr>,
             (gs @ [Vector2_neg (circle_position opts i)]) @
               map (\<lambda>k. Vector2_neg (circle_position opts k)) [Suc i..<n])"
      using "1.IH" [OF True refl pos len] .
    show ?thesis
      unfolding step ih using True by (simp add: upt_conv_Cons addAgent_def)
  next
    case False
    then show ?thesis
      by (subst circle_loop.simps) simp
  qed
qed

lemma size_t_of_int_nonneg:
  "0 \<le> n \<Longrightarrow> n \<le> INT_MAX \<Longrightarrow> size_t_of_int n = nat n"
  by (simp add: size_t_of_int_def INT_MAX_def)

lemma size_t_of_int_neg:
  "INT_MIN \<le> n \<Longrightarrow> n < 0 \<Longrightarrow> size_t_of_int n = nat (2 ^ 64 + n)"
proof -
  assume a: "INT_MIN \<le> n" "n < 0"
  have "n mod 2 ^ 64 = (n + 2 ^ 64) mod 2 ^ 64" by simp
  also have "\<dots> = n + 2 ^ 64"
    using a by (intro mod_pos_pos_trivial) (simp_all add: INT_MIN_def)
  finally show ?thesis by (simp add: size_t_of_int_def add.commute)
qed

lemma circle_scenario_eq:
  "rvo_agents sim = [] \<Longrightarrow>
   circle_scenario opts sim =
     (if vector_max_size < size_t_of_int (numAgents opts) then Inl length_error
      else Inr (sim\<lparr>rvo_agents :=
                     map (circle_position opts) [0..<size_t_of_int (numAgents opts)]\<rparr>,
                map (\<lambda>k. Vector2_neg (circle_position opts k))
                  [0..<size_t_of_int (numAgents opts)]))"
  by (simp add: circle_scenario_def Let_def circle_loop_Inr)

lemma initialize_circle:
  "configuration opts = CIRCLE \<Longrightarrow>
   initialize opts s =
     (if vector_max_size < size_t_of_int (numAgents opts) then Inl length_error
      else Inr (s\<lparr>simulator :=
                    Some ((fresh_simulator opts (obstacles s))
                       \<lparr>rvo_agents :=
                          map (circle_position opts) [0..<size_t_of_int (numAgents opts)]\<rparr>),
                  goals := map (\<lambda>k. Vector2_neg (circle_position opts k))
                             [0..<size_t_of_int (numAgents opts)]\<rparr>))"
  by (simp add: initialize_def Let_def circle_scenario_eq fresh_simulator_fields)

lemma initialize_deadlock:
  "configuration opts = DEADLOCK \<Longrightarrow>
   initialize opts s =
     Inr (s\<lparr>simulator :=
              Some ((fresh_simulator opts (obstacles s))
                 \<lparr>rvo_agents := [(- 2 * radius opts, 0), (2 * radius opts, 0)]\<rparr>),
            goals := [(10 * radius opts, 0), (- 10 * radius opts, 0)]\<rparr>)"
  by (simp add: initialize_def Let_def deadlock_scenario_def addAgent_def
        fresh_simulator_fields)

lemma initialize_count:
  "configuration opts = CONFIGURATION_COUNT \<Longrightarrow>
   initialize opts s =
     Inr (s\<lparr>simulator := Some (fresh_simulator opts (obstacles s)), goals := []\<rparr>)"
  by (simp add: initialize_def Let_def)

lemma valid_count_fits:
  "0 \<le> n \<Longrightarrow> n \<le> INT_MAX \<Longrightarrow> \<not> vector_max_size < size_t_of_int n"
  by (simp add: size_t_of_int_nonneg) (simp add: vector_max_size_def INT_MAX_def)

lemma negative_count_too_large:
  "INT_MIN \<le> n \<Longrightarrow> n < 0 \<Longrightarrow> vector_max_size < size_t_of_int n"
  by (simp add: size_t_of_int_neg) (simp add: vector_max_size_def INT_MIN_def)

lemma initialize_returns:
  assumes "configuration opts = CIRCLE \<longrightarrow> 0 \<le> numAgents opts \<and> numAgents opts \<le> INT_MAX"
  shows "\<exists>ps gs. initialize opts s =
           Inr (s\<lparr>simulator := Some ((fresh_simulator opts (obstacles s))\<lparr>rvo_agents := ps\<rparr>),
                  goals := gs\<rparr>)"
proof (cases "configuration opts")
  case CIRCLE
  with assms have "\<not> vector_max_size < size_t_of_int (numAgents opts)"
    by (simp add: valid_count_fits)
  with CIRCLE show ?thesis
    using initialize_circle [of opts s] by (simp del: upt_0) blast
next
  case DEADLOCK
  then show ?thesis
    using initialize_deadlock [of opts s] by simp blast
next
  case CONFIGURATION_COUNT
  have "fresh_simulator opts (obstacles s) =
          (fresh_simulator opts (obstacles s))\<lparr>rvo_agents := []\<rparr>"
    by (simp add: fresh_simulator_fields)
  with CONFIGURATION_COUNT show ?thesis
    by (metis initialize_count)
qed

lemma circle_angle_eq:
  assumes "0 < numAgents opts" "numAgents opts \<le> INT_MAX" "i < nat (numAgents opts)"
  shows "circle_angle opts i = real i * (2 * pi / real_of_int (numAgents opts))"
proof -
  have "i * 2 < 2 ^ 64"
    using assms by (simp add: INT_MAX_def)
  then have "size_t_mul i 2 = i * 2"
    by (simp add: size_t_mul_def)
  then show ?thesis
    by (simp add: circle_angle_def)
qed

lemma preview_not_captured:
  "draw_staging_preview False r sim m =
     (if staging_obstacle sim = [] then []
      else if length (staging_obstacle sim) = 1
        then [draw_line_to_mouse (toScreenSpace r (hd (staging_obstacle sim))) m]
      else [draw_line_to_mouse (toScreenSpace r (hd (staging_obstacle sim))) m,
            draw_line_to_mouse (toScreenSpace r (last (staging_obstacle sim))) m])"
  by (cases "staging_obstacle sim") (auto simp: draw_staging_preview_def Let_def)

lemma fresh_simulator_no_obstacles:
  "fresh_simulator opts [] =
     setAgentDefaults (neighborDist opts) (maxNeighbors opts) (timeHorizon opts)
       (timeHorizonObst opts) (radius opts) (maxSpeed opts) new_RVOSimulator"
  by (simp add: fresh_simulator_def)

lemma initialize_main_eq:
  "configuration opts = CIRCLE \<Longrightarrow> obstacles s = [] \<Longrightarrow>
   initialize_main opts s = initialize opts s"
  by (simp add: initialize_main_def initialize_def fresh_simulator_no_obstacles Let_def)

lemma fresh_simulator_no_agents:
  "(fresh_simulator opts obs)\<lparr>rvo_agents := []\<rparr> = fresh_simulator opts obs"
  by (simp add: fresh_simulator_def fold_addObstacle setAgentDefaults_def
        new_RVOSimulator_def processObstacles_def Let_def)

lemma initialize_empty:
  "initialize no_agents new_Simulation = Inr empty_Simulation"
proof -
  have "\<not> vector_max_size < size_t_of_int 0" "size_t_of_int 0 = 0"
    by (simp_all add: size_t_of_int_def)
  then show ?thesis
    by (simp add: initialize_circle fresh_simulator_no_agents empty_Simulation_def
          no_agents_def new_Simulation_def default_options_def)
qed

lemma commit_obstacle_null:
  "2 < length (staging_obstacle s) \<Longrightarrow> simulator s = None \<Longrightarrow>
   commit_obstacle s = Inl null_simulator"
  by (simp add: commit_obstacle_def)

section \<open>Committing the staging buffer\<close>

text \<open>
  C1. \<^verbatim>\<open>commit_obstacle\<close>: a staging buffer of fewer than three vertices is dropped and
  nothing else changes. With three or more vertices and a live solver, the buffer is
  appended as one polygon, vertices in order, to the committed obstacles and handed to
  the solver, whose obstacles are processed once more; agents and goals stay as they
  are. In both cases the staging buffer is empty afterwards.
\<close>

theorem commit_obstacle_commits_or_discards:
  "(length (staging_obstacle s) < 3 \<longrightarrow>
      commit_obstacle s = Inr (s\<lparr>staging_obstacle := []\<rparr>)) \<and>
   (3 \<le> length (staging_obstacle s) \<and> simulator s = Some sim \<longrightarrow>
      (\<exists>s' sim'. commit_obstacle s = Inr s' \<and> staging_obstacle s' = [] \<and>
         goals s' = goals s \<and>
         obstacles s' = obstacles s @ [staging_obstacle s] \<and>
         simulator s' = Some sim' \<and>
         rvo_obstacles sim' = rvo_obstacles sim @ [staging_obstacle s] \<and>
         rvo_processed sim' = rvo_obstacles sim' \<and>
         rvo_process_calls sim' = Suc (rvo_process_calls sim) \<and>
         rvo_agents sim' = rvo_agents sim \<and> rvo_defaults sim' = rvo_defaults sim))"
  by (simp add: commit_obstacle_def addObstacle_def processObstacles_def)

theorem commit_obstacle_commits_or_discards_witness:
  "length (staging_obstacle (empty_Simulation\<lparr>staging_obstacle := [(0, 0), (1, 0)]\<rparr>)) < 3 \<and>
   commit_obstacle (empty_Simulation\<lparr>staging_obstacle := [(0, 0), (1, 0)]\<rparr>) =
     Inr empty_Simulation \<and>
   3 \<le> length (staging_obstacle
          (empty_Simulation\<lparr>staging_obstacle := [(0, 0), (1, 0), (0, 1)]\<rparr>)) \<and>
   simulator (empty_Simulation\<lparr>staging_obstacle := [(0, 0), (1, 0), (0, 1)]\<rparr>) =
     Some (fresh_simulator no_agents []) \<and>
   (\<exists>s' sim'.
      commit_obstacle (empty_Simulation\<lparr>staging_obstacle := [(0, 0), (1, 0), (0, 1)]\<rparr>) =
        Inr s' \<and>
      staging_obstacle s' = [] \<and> goals s' = [] \<and>
      obstacles s' = [[(0, 0), (1, 0), (0, 1)]] \<and> simulator s' = Some sim' \<and>
      rvo_obstacles sim' = [[(0, 0), (1, 0), (0, 1)]] \<and>
      rvo_processed sim' = [[(0, 0), (1, 0), (0, 1)]] \<and>
      rvo_process_calls sim' = 1 \<and> rvo_agents sim' = [])"
proof -
  let ?s2 = "empty_Simulation\<lparr>staging_obstacle := [(0, 0), (1, 0)]\<rparr>"
  let ?s3 = "empty_Simulation\<lparr>staging_obstacle := [(0, 0), (1, 0), (0, 1)]\<rparr>"
  let ?sim = "fresh_simulator no_agents []"
  have short: "length (staging_obstacle ?s2) < 3"
    by simp
  have long: "3 \<le> length (staging_obstacle ?s3) \<and> simulator ?s3 = Some ?sim"
    by (simp add: empty_Simulation_def)
  have "commit_obstacle ?s2 = Inr (?s2\<lparr>staging_obstacle := []\<rparr>)"
    using commit_obstacle_commits_or_discards [of ?s2] short by blast
  then have discard: "commit_obstacle ?s2 = Inr empty_Simulation"
    by (simp add: empty_Simulation_def)
  obtain s' sim' where "commit_obstacle ?s3 = Inr s'" "staging_obstacle s' = []"
    "goals s' = goals ?s3" "obstacles s' = obstacles ?s3 @ [staging_obstacle ?s3]"
    "simulator s' = Some sim'"
    "rvo_obstacles sim' = rvo_obstacles ?sim @ [staging_obstacle ?s3]"
    "rvo_processed sim' = rvo_obstacles sim'"
    "rvo_process_calls sim' = Suc (rvo_process_calls ?sim)"
    "rvo_agents sim' = rvo_agents ?sim"
    using commit_obstacle_commits_or_discards [of ?s3 ?sim] long by blast
  then have "commit_obstacle ?s3 = Inr s' \<and>
      staging_obstacle s' = [] \<and> goals s' = [] \<and>
      obstacles s' = [[(0, 0), (1, 0), (0, 1)]] \<and> simulator s' = Some sim' \<and>
      rvo_obstacles sim' = [[(0, 0), (1, 0), (0, 1)]] \<and>
      rvo_processed sim' = [[(0, 0), (1, 0), (0, 1)]] \<and>
      rvo_process_calls sim' = 1 \<and> rvo_agents sim' = []"
    by (simp add: empty_Simulation_def fresh_simulator_fields)
  then have "\<exists>s' sim'. commit_obstacle ?s3 = Inr s' \<and>
      staging_obstacle s' = [] \<and> goals s' = [] \<and>
      obstacles s' = [[(0, 0), (1, 0), (0, 1)]] \<and> simulator s' = Some sim' \<and>
      rvo_obstacles sim' = [[(0, 0), (1, 0), (0, 1)]] \<and>
      rvo_processed sim' = [[(0, 0), (1, 0), (0, 1)]] \<and>
      rvo_process_calls sim' = 1 \<and> rvo_agents sim' = []"
    by blast
  with short long discard show ?thesis
    by blast
qed

section \<open>The circle scenario\<close>

text \<open>
  C2. Circle scenario with an agent count \<open>N\<close> from 1 up to the largest \<^verbatim>\<open>int\<close>:
  \<^verbatim>\<open>initialize\<close> returns, the solver holds \<open>N\<close> agents and there are \<open>N\<close> goals; agent
  \<open>i\<close> stands at \<open>r (cos (i 2\<pi>/N), sin (i 2\<pi>/N))\<close> for the circle radius \<open>r\<close>,
  and goal \<open>i\<close> is the negation of the position of agent \<open>i\<close>.
\<close>

theorem circle_placement_and_goals:
  assumes "configuration opts = CIRCLE" and "1 \<le> numAgents opts"
    and "numAgents opts \<le> INT_MAX"
  shows "\<exists>s' sim'. initialize opts s = Inr s' \<and> simulator s' = Some sim' \<and>
           getNumAgents sim' = nat (numAgents opts) \<and>
           length (goals s') = nat (numAgents opts) \<and>
           (\<forall>i < nat (numAgents opts).
              rvo_agents sim' ! i =
                (circleRadius opts * cos (real i * (2 * pi / real_of_int (numAgents opts))),
                 circleRadius opts * sin (real i * (2 * pi / real_of_int (numAgents opts)))) \<and>
              goals s' ! i = (- fst (rvo_agents sim' ! i), - snd (rvo_agents sim' ! i)))"
proof -
  let ?n = "nat (numAgents opts)"
  have n: "size_t_of_int (numAgents opts) = ?n"
    using assms by (simp add: size_t_of_int_nonneg)
  have fits: "\<not> vector_max_size < size_t_of_int (numAgents opts)"
    using assms by (simp add: valid_count_fits)
  let ?sim = "(fresh_simulator opts (obstacles s))
                \<lparr>rvo_agents := map (circle_position opts) [0..<?n]\<rparr>"
  let ?gs = "map (\<lambda>k. Vector2_neg (circle_position opts k)) [0..<?n]"
  have init: "initialize opts s = Inr (s\<lparr>simulator := Some ?sim, goals := ?gs\<rparr>)"
    using assms(1) fits by (simp add: initialize_circle n del: upt_0)
  have pos: "rvo_agents ?sim ! i =
      (circleRadius opts * cos (real i * (2 * pi / real_of_int (numAgents opts))),
       circleRadius opts * sin (real i * (2 * pi / real_of_int (numAgents opts))))"
    if "i < ?n" for i
    using that assms circle_angle_eq [of opts i]
    by (simp add: circle_position_def Vector2_scale_def)
  have goal: "?gs ! i = (- fst (rvo_agents ?sim ! i), - snd (rvo_agents ?sim ! i))"
    if "i < ?n" for i
    using that by (simp add: Vector2_neg_def)
  show ?thesis
    using init pos goal by (simp add: getNumAgents_def)
qed

theorem circle_placement_and_goals_witness:
  "configuration (default_options\<lparr>numAgents := 2\<rparr>) = CIRCLE \<and>
   1 \<le> numAgents (default_options\<lparr>numAgents := 2\<rparr>) \<and>
   numAgents (default_options\<lparr>numAgents := 2\<rparr>) \<le> INT_MAX \<and>
   (\<exists>s' sim'. initialize (default_options\<lparr>numAgents := 2\<rparr>) empty_Simulation = Inr s' \<and>
      simulator s' = Some sim' \<and> getNumAgents sim' = 2 \<and> length (goals s') = 2 \<and>
      rvo_agents sim' ! 0 = (200, 0) \<and> goals s' ! 0 = (- 200, 0) \<and>
      rvo_agents sim' ! 1 = (- 200, 0) \<and> goals s' ! 1 = (200, 0))"
proof -
  let ?o = "default_options\<lparr>numAgents := 2\<rparr>"
  have h: "configuration ?o = CIRCLE" "1 \<le> numAgents ?o" "numAgents ?o \<le> INT_MAX"
    by (simp_all add: default_options_def INT_MAX_def)
  obtain s' sim' where r: "initialize ?o empty_Simulation = Inr s'" "simulator s' = Some sim'"
    "getNumAgents sim' = nat (numAgents ?o)" "length (goals s') = nat (numAgents ?o)"
    and all: "\<forall>i < nat (numAgents ?o).
        rvo_agents sim' ! i =
          (circleRadius ?o * cos (real i * (2 * pi / real_of_int (numAgents ?o))),
           circleRadius ?o * sin (real i * (2 * pi / real_of_int (numAgents ?o)))) \<and>
        goals s' ! i = (- fst (rvo_agents sim' ! i), - snd (rvo_agents sim' ! i))"
    using circle_placement_and_goals [OF h, of empty_Simulation] by blast
  have n: "nat (numAgents ?o) = 2" "circleRadius ?o = 200" "numAgents ?o = 2"
    by (simp_all add: default_options_def)
  from all have "rvo_agents sim' ! 0 = (200, 0) \<and> goals s' ! 0 = (- 200, 0)"
    "rvo_agents sim' ! 1 = (- 200, 0) \<and> goals s' ! 1 = (200, 0)"
    unfolding n by (simp_all add: eval_nat_numeral)
  with r h show ?thesis
    unfolding n by simp
qed

section \<open>The staging buffer across a reset\<close>

text \<open>
  C3 (as amended). \<^verbatim>\<open>initialize\<close> does not touch the staging buffer: whenever the agent
  count is one the circle scenario can place (any count for the other scenarios),
  \<^verbatim>\<open>initialize\<close> returns a state whose staging buffer is the one it started with, so
  an obstacle under construction survives a reset.
\<close>

theorem initialize_keeps_staging_obstacle:
  assumes "configuration opts = CIRCLE \<longrightarrow> 0 \<le> numAgents opts \<and> numAgents opts \<le> INT_MAX"
  shows "\<exists>s'. initialize opts s = Inr s' \<and> staging_obstacle s' = staging_obstacle s"
proof -
  obtain ps gs where "initialize opts s =
      Inr (s\<lparr>simulator := Some ((fresh_simulator opts (obstacles s))\<lparr>rvo_agents := ps\<rparr>),
             goals := gs\<rparr>)"
    using initialize_returns [OF assms] by blast
  then show ?thesis
    by simp
qed

theorem initialize_keeps_staging_obstacle_witness:
  "0 \<le> numAgents no_agents \<and> numAgents no_agents \<le> INT_MAX \<and>
   (\<exists>s'. initialize no_agents (empty_Simulation\<lparr>staging_obstacle := [(1, 2), (3, 4)]\<rparr>) =
           Inr s' \<and>
         staging_obstacle s' = [(1, 2), (3, 4)])"
proof -
  have h: "0 \<le> numAgents no_agents \<and> numAgents no_agents \<le> INT_MAX"
    by (simp add: no_agents_def INT_MAX_def)
  then have "configuration no_agents = CIRCLE \<longrightarrow>
      0 \<le> numAgents no_agents \<and> numAgents no_agents \<le> INT_MAX"
    by simp
  from initialize_keeps_staging_obstacle [OF this, of "empty_Simulation\<lparr>staging_obstacle := [(1, 2), (3, 4)]\<rparr>"] h
  show ?thesis
    by simp
qed

theorem initialize_staging_counterexample:
  "staging_obstacle (empty_Simulation\<lparr>staging_obstacle := [(1, 2)]\<rparr>) \<noteq> [] \<and>
   initialize no_agents (empty_Simulation\<lparr>staging_obstacle := [(1, 2)]\<rparr>) =
     Inr (empty_Simulation\<lparr>staging_obstacle := [(1, 2)]\<rparr>)"
proof -
  have "\<not> vector_max_size < size_t_of_int 0" "size_t_of_int 0 = 0"
    by (simp_all add: size_t_of_int_def)
  then show ?thesis
    by (simp add: initialize_circle default_options_def empty_Simulation_def no_agents_def
          fresh_simulator_def setAgentDefaults_def new_RVOSimulator_def)
qed

section \<open>Committed obstacles across a reset\<close>

text \<open>
  C4. \<^verbatim>\<open>initialize\<close> keeps the committed obstacles \<open>P\<close>. The solver it creates has
  received exactly the polygons of \<open>P\<close>, in their order, whatever the previous solver
  held; \<^verbatim>\<open>processObstacles\<close> ran once when \<open>P\<close> is not empty, covering all of \<open>P\<close>,
  and not at all when \<open>P\<close> is empty.
\<close>

theorem initialize_readds_obstacles:
  assumes "configuration opts = CIRCLE \<longrightarrow> 0 \<le> numAgents opts \<and> numAgents opts \<le> INT_MAX"
  shows "\<exists>s' sim'. initialize opts s = Inr s' \<and> obstacles s' = obstacles s \<and>
           simulator s' = Some sim' \<and> rvo_obstacles sim' = obstacles s \<and>
           rvo_processed sim' = obstacles s \<and>
           rvo_process_calls sim' = (if obstacles s = [] then 0 else 1)"
proof -
  obtain ps gs where "initialize opts s =
      Inr (s\<lparr>simulator := Some ((fresh_simulator opts (obstacles s))\<lparr>rvo_agents := ps\<rparr>),
             goals := gs\<rparr>)"
    using initialize_returns [OF assms] by blast
  then show ?thesis
    by (simp add: fresh_simulator_fields)
qed

theorem initialize_readds_obstacles_witness:
  "0 \<le> numAgents no_agents \<and> numAgents no_agents \<le> INT_MAX \<and>
   (\<exists>s' sim'. initialize no_agents
                 (new_Simulation\<lparr>obstacles := [[(0, 0), (1, 0), (0, 1)]]\<rparr>) = Inr s' \<and>
      obstacles s' = [[(0, 0), (1, 0), (0, 1)]] \<and> simulator s' = Some sim' \<and>
      rvo_obstacles sim' = [[(0, 0), (1, 0), (0, 1)]] \<and>
      rvo_processed sim' = [[(0, 0), (1, 0), (0, 1)]] \<and>
      rvo_process_calls sim' = 1)"
proof -
  have h: "0 \<le> numAgents no_agents \<and> numAgents no_agents \<le> INT_MAX"
    by (simp add: no_agents_def INT_MAX_def)
  then have "configuration no_agents = CIRCLE \<longrightarrow>
      0 \<le> numAgents no_agents \<and> numAgents no_agents \<le> INT_MAX"
    by simp
  from initialize_readds_obstacles [OF this, of "new_Simulation\<lparr>obstacles := [[(0, 0), (1, 0), (0, 1)]]\<rparr>"] h
  show ?thesis
    by (simp add: new_Simulation_def)
qed

section \<open>The deadlock scenario\<close>

text \<open>
  C5. Deadlock scenario: whatever the configured agent count, \<^verbatim>\<open>initialize\<close> returns
  with exactly two agents, at \<open>(-2r, 0)\<close> and \<open>(2r, 0)\<close> for the agent radius \<open>r\<close>, and
  the goals \<open>(10r, 0)\<close> and \<open>(-10r, 0)\<close>.
\<close>

theorem deadlock_two_agents:
  assumes "configuration opts = DEADLOCK"
  shows "\<exists>s' sim'. initialize opts s = Inr s' \<and> simulator s' = Some sim' \<and>
           getNumAgents sim' = 2 \<and>
           rvo_agents sim' = [(- 2 * radius opts, 0), (2 * radius opts, 0)] \<and>
           goals s' = [(10 * radius opts, 0), (- 10 * radius opts, 0)]"
  using assms by (simp add: initialize_deadlock getNumAgents_def)

theorem deadlock_two_agents_witness:
  "configuration (default_options\<lparr>configuration := DEADLOCK\<rparr>) = DEADLOCK \<and>
   numAgents (default_options\<lparr>configuration := DEADLOCK\<rparr>) = 250 \<and>
   radius (default_options\<lparr>configuration := DEADLOCK\<rparr>) = 3 / 2 \<and>
   (\<exists>s' sim'. initialize (default_options\<lparr>configuration := DEADLOCK\<rparr>) new_Simulation =
        Inr s' \<and>
      simulator s' = Some sim' \<and> getNumAgents sim' = 2 \<and>
      rvo_agents sim' = [(- 3, 0), (3, 0)] \<and> goals s' = [(15, 0), (- 15, 0)])"
proof -
  let ?o = "default_options\<lparr>configuration := DEADLOCK\<rparr>"
  have h: "configuration ?o = DEADLOCK"
    by simp
  have v: "numAgents ?o = 250" "radius ?o = 3 / 2"
    by (simp_all add: default_options_def)
  from deadlock_two_agents [OF h, of new_Simulation] h v show ?thesis
    by simp
qed

section \<open>Agent counts below zero\<close>

text \<open>
  C6 (as amended). Under the circle scenario a negative agent count is not clamped:
  for every negative \<^verbatim>\<open>int\<close> count \<open>n\<close> the count is converted to the \<^verbatim>\<open>size_t\<close> value
  \<open>2^64 + n\<close> and \<^verbatim>\<open>initialize\<close> ends with \<^verbatim>\<open>length_error\<close> instead of returning a
  state. With an agent count of zero \<^verbatim>\<open>initialize\<close> returns, with a solver that holds
  no agents and with an empty goal list.
\<close>

theorem negative_agent_count_not_clamped:
  assumes "configuration opts = CIRCLE"
  shows "(INT_MIN \<le> numAgents opts \<and> numAgents opts < 0 \<longrightarrow>
            size_t_of_int (numAgents opts) = nat (2 ^ 64 + numAgents opts) \<and>
            initialize opts s = Inl length_error) \<and>
         (numAgents opts = 0 \<longrightarrow>
            (\<exists>s' sim'. initialize opts s = Inr s' \<and> simulator s' = Some sim' \<and>
               getNumAgents sim' = 0 \<and> goals s' = []))"
proof (intro conjI impI)
  assume neg: "INT_MIN \<le> numAgents opts \<and> numAgents opts < 0"
  then show "size_t_of_int (numAgents opts) = nat (2 ^ 64 + numAgents opts)"
    by (simp add: size_t_of_int_neg)
  from neg have "vector_max_size < size_t_of_int (numAgents opts)"
    by (simp add: negative_count_too_large)
  with assms show "initialize opts s = Inl length_error"
    by (simp add: initialize_circle)
next
  assume zero: "numAgents opts = 0"
  then have "size_t_of_int (numAgents opts) = 0"
    by (simp add: size_t_of_int_def)
  with assms show "\<exists>s' sim'. initialize opts s = Inr s' \<and> simulator s' = Some sim' \<and>
      getNumAgents sim' = 0 \<and> goals s' = []"
    by (simp add: initialize_circle getNumAgents_def)
qed

theorem negative_agent_count_not_clamped_witness:
  "configuration (default_options\<lparr>numAgents := - 1\<rparr>) = CIRCLE \<and>
   INT_MIN \<le> numAgents (default_options\<lparr>numAgents := - 1\<rparr>) \<and>
   numAgents (default_options\<lparr>numAgents := - 1\<rparr>) < 0 \<and>
   size_t_of_int (numAgents (default_options\<lparr>numAgents := - 1\<rparr>)) =
     18446744073709551615 \<and>
   initialize (default_options\<lparr>numAgents := - 1\<rparr>) new_Simulation = Inl length_error \<and>
   configuration no_agents = CIRCLE \<and> numAgents no_agents = 0 \<and>
   (\<exists>s' sim'. initialize no_agents new_Simulation = Inr s' \<and> simulator s' = Some sim' \<and>
      getNumAgents sim' = 0 \<and> goals s' = [])"
proof -
  let ?o = "default_options\<lparr>numAgents := - 1\<rparr>"
  have c: "configuration ?o = CIRCLE" "configuration no_agents = CIRCLE"
    by (simp_all add: default_options_def no_agents_def)
  have neg: "INT_MIN \<le> numAgents ?o \<and> numAgents ?o < 0"
    by (simp add: INT_MIN_def)
  have zero: "numAgents no_agents = 0"
    by (simp add: no_agents_def)
  have "size_t_of_int (numAgents ?o) = nat (2 ^ 64 + numAgents ?o) \<and>
      initialize ?o new_Simulation = Inl length_error"
    using negative_agent_count_not_clamped [OF c(1), of new_Simulation] neg by blast
  moreover have "\<exists>s' sim'. initialize no_agents new_Simulation = Inr s' \<and>
      simulator s' = Some sim' \<and> getNumAgents sim' = 0 \<and> goals s' = []"
    using negative_agent_count_not_clamped [OF c(2), of new_Simulation] zero by blast
  ultimately show ?thesis
    using c neg zero by simp
qed

theorem negative_agent_count_counterexample:
  "initialize (default_options\<lparr>numAgents := - 1\<rparr>) empty_Simulation = Inl length_error \<and>
   initialize (default_options\<lparr>numAgents := 0\<rparr>) empty_Simulation = Inr empty_Simulation"
proof -
  have "vector_max_size < size_t_of_int (- 1)"
    by (rule negative_count_too_large) (simp_all add: INT_MIN_def)
  moreover have "\<not> vector_max_size < size_t_of_int 0"
    by (simp add: size_t_of_int_def)
  moreover have "size_t_of_int 0 = 0"
    by (simp add: size_t_of_int_def)
  ultimately show ?thesis
    by (simp add: initialize_circle default_options_def empty_Simulation_def no_agents_def
          fresh_simulator_def setAgentDefaults_def new_RVOSimulator_def)
qed

section \<open>The preview of the staged polygon\<close>

text \<open>
  C9 (as amended). While the controls do not capture the pointer, the preview consists of
  the line from the first staging vertex to the pointer as soon as the buffer is not
  empty, and of the line from the last staging vertex to the pointer as soon as the
  buffer has two vertices. So for every non-empty buffer both the line from its last
  vertex and the line from its first vertex to the pointer are drawn (one line when
  there is a single vertex), and the number of preview lines is the smaller of 2 and
  the number of vertices.
\<close>

theorem staging_preview_edges:
  assumes "\<not> want_capture_mouse"
  shows "(staging_obstacle sim \<noteq> [] \<longrightarrow>
            draw_line_to_mouse (toScreenSpace r (last (staging_obstacle sim))) m
              \<in> set (draw_staging_preview want_capture_mouse r sim m) \<and>
            draw_line_to_mouse (toScreenSpace r (hd (staging_obstacle sim))) m
              \<in> set (draw_staging_preview want_capture_mouse r sim m)) \<and>
         length (draw_staging_preview want_capture_mouse r sim m) =
           min 2 (length (staging_obstacle sim))"
proof (cases "staging_obstacle sim")
  case Nil
  with assms show ?thesis by (simp add: preview_not_captured)
next
  case (Cons v vs)
  with assms show ?thesis
    by (cases vs) (simp_all add: preview_not_captured)
qed

theorem staging_preview_edges_witness:
  "\<not> WantCaptureMouse pointer_free \<and>
   staging_obstacle (empty_Simulation\<lparr>staging_obstacle := [(0, 0), (10, 0), (10, 10)]\<rparr>) \<noteq> [] \<and>
   RenderDrawLine 955 369 100 100
     \<in> set (draw_staging_preview (WantCaptureMouse pointer_free) default_Renderer
              (empty_Simulation\<lparr>staging_obstacle := [(0, 0), (10, 0), (10, 10)]\<rparr>)
              (100, 100)) \<and>
   RenderDrawLine 940 384 100 100
     \<in> set (draw_staging_preview (WantCaptureMouse pointer_free) default_Renderer
              (empty_Simulation\<lparr>staging_obstacle := [(0, 0), (10, 0), (10, 10)]\<rparr>)
              (100, 100)) \<and>
   length (draw_staging_preview (WantCaptureMouse pointer_free) default_Renderer
             (empty_Simulation\<lparr>staging_obstacle := [(0, 0), (10, 0), (10, 10)]\<rparr>)
             (100, 100)) = 2"
proof -
  let ?s = "empty_Simulation\<lparr>staging_obstacle := [(0, 0), (10, 0), (10, 10)]\<rparr>"
  have h: "\<not> WantCaptureMouse pointer_free"
    by (simp add: pointer_free_def)
  have ne: "staging_obstacle ?s \<noteq> []"
    by simp
  have l: "draw_line_to_mouse (toScreenSpace default_Renderer (last (staging_obstacle ?s)))
      (100, 100) = RenderDrawLine 955 369 100 100"
    by (simp add: draw_line_to_mouse_def toScreenSpace_def default_Renderer_def
          int_of_float_def)
  have f: "draw_line_to_mouse (toScreenSpace default_Renderer (hd (staging_obstacle ?s)))
      (100, 100) = RenderDrawLine 940 384 100 100"
    by (simp add: draw_line_to_mouse_def toScreenSpace_def default_Renderer_def
          int_of_float_def)
  from staging_preview_edges [OF h, of ?s default_Renderer "(100, 100)"] ne h show ?thesis
    unfolding l f by simp
qed

theorem closing_edge_counterexample:
  "length (staging_obstacle (empty_Simulation\<lparr>staging_obstacle := [(0, 0), (10, 0)]\<rparr>)) = 2 \<and>
   draw_staging_preview False default_Renderer
     (empty_Simulation\<lparr>staging_obstacle := [(0, 0), (10, 0)]\<rparr>) (100, 100) =
     [RenderDrawLine 940 384 100 100, RenderDrawLine 955 384 100 100] \<and>
   draw_line_to_mouse (toScreenSpace default_Renderer (0, 0)) (100, 100) =
     RenderDrawLine 940 384 100 100"
  by (simp add: draw_staging_preview_def draw_line_to_mouse_def toScreenSpace_def
        default_Renderer_def empty_Simulation_def int_of_float_def)

section \<open>A right click on a short staging buffer\<close>

text \<open>
  C10. A press of the right button outside the controls, with fewer than two vertices
  staged: the position is appended to the staging buffer, which then has at most two
  vertices, so the commit that follows adds no polygon. Polling goes on with a state
  that differs from the one before only in that the staging buffer is empty.
\<close>

theorem right_click_discards_short_staging:
  assumes "length (staging_obstacle (simulation app)) < 2" and "\<not> WantCaptureMouse io"
  shows "staging_obstacle (stage_vertex (renderer app) x y (simulation app)) =
           staging_obstacle (simulation app) @
             [fromScreenSpace (renderer app) (real_of_int x, real_of_int y)] \<and>
         length (staging_obstacle (stage_vertex (renderer app) x y (simulation app))) \<le> 2 \<and>
         handle_event io (SDL_MOUSEBUTTONDOWN SDL_BUTTON_RIGHT clicks x y) app =
           Inr (True, app\<lparr>simulation := (simulation app)\<lparr>staging_obstacle := []\<rparr>\<rparr>)"
  using assms by (simp add: stage_vertex_def commit_obstacle_def)

theorem right_click_discards_short_staging_witness:
  "length (staging_obstacle
     (simulation (empty_App\<lparr>simulation := empty_Simulation\<lparr>staging_obstacle := [(0, 0)]\<rparr>\<rparr>))) < 2 \<and>
   \<not> WantCaptureMouse pointer_free \<and>
   staging_obstacle (stage_vertex default_Renderer 955 354
     (empty_Simulation\<lparr>staging_obstacle := [(0, 0)]\<rparr>)) = [(0, 0), (10, 20)] \<and>
   handle_event pointer_free (SDL_MOUSEBUTTONDOWN SDL_BUTTON_RIGHT 1 955 354)
     (empty_App\<lparr>simulation := empty_Simulation\<lparr>staging_obstacle := [(0, 0)]\<rparr>\<rparr>) =
     Inr (True, empty_App)"
proof -
  let ?app = "empty_App\<lparr>simulation := empty_Simulation\<lparr>staging_obstacle := [(0, 0)]\<rparr>\<rparr>"
  have h: "length (staging_obstacle (simulation ?app)) < 2"
    by simp
  have c: "\<not> WantCaptureMouse pointer_free"
    by (simp add: pointer_free_def)
  have r: "renderer ?app = default_Renderer"
    by (simp add: empty_App_def)
  have v: "fromScreenSpace default_Renderer (955, 354) = (10, 20)"
    by (simp add: fromScreenSpace_def Vector2_div_def default_Renderer_def)
  have e: "?app\<lparr>simulation := (simulation ?app)\<lparr>staging_obstacle := []\<rparr>\<rparr> = empty_App"
    by (simp add: empty_App_def empty_Simulation_def)
  have "staging_obstacle (stage_vertex (renderer ?app) 955 354 (simulation ?app)) =
      staging_obstacle (simulation ?app) @
        [fromScreenSpace (renderer ?app) (real_of_int 955, real_of_int 354)]"
    and "handle_event pointer_free (SDL_MOUSEBUTTONDOWN SDL_BUTTON_RIGHT 1 955 354) ?app =
      Inr (True, ?app\<lparr>simulation := (simulation ?app)\<lparr>staging_obstacle := []\<rparr>\<rparr>)"
    using right_click_discards_short_staging [OF h c, of 955 354 1] by blast+
  then have "staging_obstacle (stage_vertex default_Renderer 955 354
      (empty_Simulation\<lparr>staging_obstacle := [(0, 0)]\<rparr>)) = [(0, 0), (10, 20)]"
    and "handle_event pointer_free (SDL_MOUSEBUTTONDOWN SDL_BUTTON_RIGHT 1 955 354) ?app =
      Inr (True, empty_App)"
    unfolding e by (simp_all add: r v del: handle_event.simps)
  with h c show ?thesis
    by blast
qed

end
